theory Spec2Isabelle
  imports Complex_Main
begin

section \<open>Python values used by the procurement agents\<close>

text \<open>
  A call of the source either raises an exception or returns a value.  A raised
  exception is \<open>Inl e\<close>, a returned value is \<open>Inr v\<close>.  A returned dictionary with
  an \<open>error\<close> key is a value, not an exception.
\<close>

datatype exn =
    KeyError string
  | ValueError string
  | TypeError string
  | NameError string
  | ZeroDivisionError

definition bind :: "exn + 'a \<Rightarrow> ('a \<Rightarrow> exn + 'b) \<Rightarrow> exn + 'b" where
  "bind m f = (case m of Inl e \<Rightarrow> Inl e | Inr v \<Rightarrow> f v)"

subsection \<open>Floats\<close>

text \<open>
  A finite Python float is represented by the rational number it denotes.  Every
  float operation of the source is the exact operation followed by \<open>fl64\<close>, the
  rounding to the nearest number with a 53 bit significand, ties to the even
  significand (IEEE 754 binary64, round-half-even).  The exponent range is not bounded:
  overflow beyond \<open>1.8e308\<close>, subnormal numbers, infinities and NaN values of
  arithmetic are outside the model.
\<close>

function bit_length :: "int \<Rightarrow> nat" where
  "bit_length n = (if n \<le> 0 then 0 else Suc (bit_length (n div 2)))"
  by pat_completeness auto
termination
  by (relation "measure nat") auto

declare bit_length.simps [simp del]

definition pow2 :: "int \<Rightarrow> rat" where
  "pow2 e = 2 powi e"

text \<open>\<open>ilog2 x\<close> is the binary exponent of a positive rational: \<open>2^e \<le> x < 2^(e+1)\<close>.\<close>

definition ilog2 :: "rat \<Rightarrow> int" where
  "ilog2 x = (let (p, q) = quotient_of x;
                  e = int (bit_length p) - int (bit_length q)
              in if pow2 e \<le> x then e else e - 1)"

definition round_half_even :: "rat \<Rightarrow> int" where
  "round_half_even r =
     (let f = \<lfloor>r\<rfloor>; d = r - of_int f
      in if d < 1 / 2 then f else if 1 / 2 < d then f + 1
         else if even f then f else f + 1)"

definition fl64 :: "rat \<Rightarrow> rat" where
  "fl64 x = (if x = 0 then 0
             else let u = pow2 (ilog2 \<bar>x\<bar> - 52)
                  in of_int (round_half_even (x / u)) * u)"

text \<open>Conversion of an \<open>int\<close> operand to \<open>float\<close> in mixed arithmetic.\<close>

definition float_of_int :: "int \<Rightarrow> rat" where
  "float_of_int n = fl64 (of_int n)"

definition float_mul :: "rat \<Rightarrow> rat \<Rightarrow> rat" where
  "float_mul x y = fl64 (x * y)"



text \<open>\<open>int(x)\<close> on a float truncates toward zero.\<close>

definition py_int :: "rat \<Rightarrow> int" where
  "py_int x = (if 0 \<le> x then \<lfloor>x\<rfloor> else \<lceil>x\<rceil>)"


subsection \<open>Strings\<close>

definition digit_char :: "nat \<Rightarrow> char" where
  "digit_char d = ''0123456789'' ! d"

text \<open>\<open>str(n)\<close> for a natural number, as an f-string prints it.\<close>

function str_nat :: "nat \<Rightarrow> string" where
  "str_nat n = (if n < 10 then [digit_char n]
                else str_nat (n div 10) @ [digit_char (n mod 10)])"
  by pat_completeness auto
termination
  by (relation "measure id") auto

declare str_nat.simps [simp del]

definition str_int :: "int \<Rightarrow> string" where
  "str_int n = (if n < 0 then CHR ''-'' # str_nat (nat (- n)) else str_nat (nat n))"

text \<open>
  \<open>int(s)\<close> on a string of ASCII characters: surrounding white space is stripped, a
  sign may lead, and the digits may be grouped by single underscores.
\<close>

definition is_space :: "char \<Rightarrow> bool" where
  "is_space c = (let n = (of_char c :: nat) in (9 \<le> n \<and> n \<le> 13) \<or> (28 \<le> n \<and> n \<le> 32))"

definition strip :: "string \<Rightarrow> string" where
  "strip s = rev (dropWhile is_space (rev (dropWhile is_space s)))"

definition digit_of :: "char \<Rightarrow> nat option" where
  "digit_of c = (let n = (of_char c :: nat) in if 48 \<le> n \<and> n \<le> 57 then Some (n - 48) else None)"

fun digits_value :: "string \<Rightarrow> bool \<Rightarrow> nat \<Rightarrow> nat option" where
  "digits_value [] after_digit acc = (if after_digit then Some acc else None)"
| "digits_value (c # cs) after_digit acc =
     (case digit_of c of
        Some d \<Rightarrow> digits_value cs True (10 * acc + d)
      | None \<Rightarrow> if c = CHR ''_'' \<and> after_digit then digits_value cs False acc else None)"

definition int_of_str :: "string \<Rightarrow> int option" where
  "int_of_str s =
     (case strip s of
        [] \<Rightarrow> None
      | c # cs \<Rightarrow>
          if c = CHR ''-'' then map_option (\<lambda>n. - int n) (digits_value cs False 0)
          else if c = CHR ''+'' then map_option int (digits_value cs False 0)
          else map_option int (digits_value (c # cs) False 0))"

subsection \<open>Table cells, rows and data frames\<close>

text \<open>
  A cell of a pandas data frame read from a CSV file: an integer, a float, the
  missing value NaN, or text.
\<close>

datatype cell = IntCell int | FloatCell rat | NaNCell | StrCell string

text \<open>
  A data frame has its column names and its rows; a row carries its index label and
  one cell per column.
\<close>

record DataFrame =
  columns :: "string list"
  rows :: "(int \<times> cell list) list"

definition empty_frame :: DataFrame where
  "empty_frame = \<lparr>columns = [], rows = []\<rparr>"

text \<open>\<open>df.empty\<close>: some axis has length 0.\<close>

definition df_empty :: "DataFrame \<Rightarrow> bool" where
  "df_empty df = (columns df = [] \<or> rows df = [])"

text \<open>\<open>row.to_dict()\<close>: the row as a dictionary from column name to cell.\<close>

type_synonym row_dict = "(string \<times> cell) list"

definition to_dict :: "DataFrame \<Rightarrow> int \<times> cell list \<Rightarrow> row_dict" where
  "to_dict df r = zip (columns df) (snd r)"

text \<open>\<open>d[k]\<close> raises \<open>KeyError\<close> on a missing key; \<open>d.get(k, v)\<close> returns \<open>v\<close> there.\<close>

definition getitem :: "row_dict \<Rightarrow> string \<Rightarrow> exn + cell" where
  "getitem d k = (case map_of d k of None \<Rightarrow> Inl (KeyError k) | Some v \<Rightarrow> Inr v)"

definition dict_get :: "row_dict \<Rightarrow> string \<Rightarrow> cell \<Rightarrow> cell" where
  "dict_get d k v = (case map_of d k of None \<Rightarrow> v | Some c \<Rightarrow> c)"

text \<open>\<open>int(c)\<close> on a cell.\<close>

fun int_of_cell :: "cell \<Rightarrow> exn + int" where
  "int_of_cell (IntCell n) = Inr n"
| "int_of_cell (FloatCell x) = Inr (py_int x)"
| "int_of_cell NaNCell = Inl (ValueError ''cannot convert float NaN to integer'')"
| "int_of_cell (StrCell s) =
     (case int_of_str s of
        None \<Rightarrow> Inl (ValueError ''invalid literal for int() with base 10'')
      | Some n \<Rightarrow> Inr n)"

text \<open>
  \<open>BaseAgent.load_csv\<close>: the file system is outside the model; the argument is what
  \<open>pd.read_csv\<close> produced, \<open>None\<close> when it raised.  Both exception handlers return
  an empty frame.
\<close>

definition load_csv :: "DataFrame option \<Rightarrow> DataFrame" where
  "load_csv file = (case file of None \<Rightarrow> empty_frame | Some df \<Rightarrow> df)"

section \<open>Data models (\<open>models/data_models.py\<close>)\<close>

record DemandForecast =
  item_code :: string
  predicted_demand :: int
  confidence :: rat
  model_used :: string
  historical_average :: int
  trend :: string
  seasonality_detected :: bool

record InventoryItem =
  item_code :: cell
  item_name :: cell
  current_quantity :: int
  reorder_point :: int
  max_capacity :: int
  unit :: cell
  warehouse_location :: cell
  last_updated :: cell
  safety_stock :: int
  lead_time_days :: int

record StockStatus =
  item_code :: cell
  item_name :: cell
  current_quantity :: int
  reorder_point :: int
  needs_reorder :: bool
  shortage_amount :: int
  status :: string
  priority :: "string option"

record OrderRecommendation =
  item_code :: string
  item_name :: cell
  recommended_quantity :: int
  reason :: string
  urgency :: string

text \<open>\<open>inventory_from_dict\<close>: the keyword arguments are evaluated in the order written.\<close>

definition inventory_from_dict :: "row_dict \<Rightarrow> exn + InventoryItem" where
  "inventory_from_dict row =
     bind (getitem row ''item_code'') (\<lambda>v_item_code.
     bind (getitem row ''item_name'') (\<lambda>v_item_name.
     bind (bind (getitem row ''current_quantity'') int_of_cell) (\<lambda>v_current_quantity.
     bind (bind (getitem row ''reorder_point'') int_of_cell) (\<lambda>v_reorder_point.
     bind (bind (getitem row ''max_capacity'') int_of_cell) (\<lambda>v_max_capacity.
     bind (getitem row ''unit'') (\<lambda>v_unit.
     bind (getitem row ''warehouse_location'') (\<lambda>v_warehouse_location.
     bind (getitem row ''last_updated'') (\<lambda>v_last_updated.
     bind (int_of_cell (dict_get row ''safety_stock'' (IntCell 0))) (\<lambda>v_safety_stock.
     bind (int_of_cell (dict_get row ''lead_time_days'' (IntCell 7))) (\<lambda>v_lead_time_days.
     Inr \<lparr>InventoryItem.item_code = v_item_code,
          InventoryItem.item_name = v_item_name,
          InventoryItem.current_quantity = v_current_quantity,
          InventoryItem.reorder_point = v_reorder_point,
          max_capacity = v_max_capacity,
          unit = v_unit,
          warehouse_location = v_warehouse_location,
          last_updated = v_last_updated,
          safety_stock = v_safety_stock,
          lead_time_days = v_lead_time_days\<rparr>))))))))))"

section \<open>Settings (\<open>config/settings.py\<close>) and module constants of Agent 3\<close>




section \<open>Agent 2: the stock monitor\<close>

text \<open>
  \<open>StockMonitor.execute\<close> returns either the error dictionary with its \<open>error\<close> and
  \<open>message\<close> entries or the dictionary holding the stock status and the inventory item.
\<close>

datatype stock_result =
    StockError string string
  | StockFound StockStatus InventoryItem

text \<open>\<open>df[df['item_code'] == item_code]\<close>: the rows whose item code is that string.\<close>

definition rows_with_item :: "DataFrame \<Rightarrow> string \<Rightarrow> (int \<times> cell list) list" where
  "rows_with_item df code =
     filter (\<lambda>r. map_of (to_dict df r) ''item_code'' = Some (StrCell code)) (rows df)"

text \<open>
  The block of \<open>StockMonitor.execute\<close> that computes the stock status of the
  inventory item (from \<open>current_qty = inventory_item.current_quantity\<close> to the
  construction of the \<open>StockStatus\<close>).  The comparison
  \<open>current_qty < reorder_point * 0.5\<close> multiplies in floating point and compares the
  integer with the float exactly.
\<close>

definition stock_status_of :: "InventoryItem \<Rightarrow> StockStatus" where
  "stock_status_of inventory_item =
     (let current_qty = InventoryItem.current_quantity inventory_item;
          reorder_pt = InventoryItem.reorder_point inventory_item;
          safety = safety_stock inventory_item;
          needs = (current_qty \<le> reorder_pt);
          shortage = max 0 (reorder_pt - current_qty);
          (st, pr) =
            (if current_qty \<le> 0 then (''OUT_OF_STOCK'', Some ''URGENT'')
             else if current_qty < safety then (''CRITICAL'', Some ''URGENT'')
             else if of_int current_qty < float_mul (float_of_int reorder_pt) (1 / 2)
               then (''LOW'', Some ''HIGH'')
             else if current_qty \<le> reorder_pt then (''LOW'', Some ''MEDIUM'')
             else (''ADEQUATE'', None))
      in \<lparr>StockStatus.item_code = InventoryItem.item_code inventory_item,
          StockStatus.item_name = InventoryItem.item_name inventory_item,
          StockStatus.current_quantity = current_qty,
          StockStatus.reorder_point = reorder_pt,
          needs_reorder = needs,
          shortage_amount = shortage,
          status = st,
          priority = pr\<rparr>)"

definition StockMonitor_execute :: "DataFrame option \<Rightarrow> string \<Rightarrow> exn + stock_result" where
  "StockMonitor_execute file code =
     (let df = load_csv file in
      if df_empty df then
        Inr (StockError ''no_inventory_data''
               ''Inventory database is empty or could not be loaded'')
      else if ''item_code'' \<notin> set (columns df) then Inl (KeyError ''item_code'')
      else
        (case rows_with_item df code of
           [] \<Rightarrow> Inr (StockError ''item_not_found''
                        (''Item '' @ code @ '' not found in inventory database''))
         | item_row # _ \<Rightarrow>
             bind (inventory_from_dict (to_dict df item_row)) (\<lambda>inventory_item.
               Inr (StockFound (stock_status_of inventory_item) inventory_item))))"

text \<open>
  \<open>StockMonitor.check_all_low_stock_items\<close>: the loop over the rows of the
  inventory; an exception in one row ends the call.
\<close>

definition low_stock_row :: "row_dict \<Rightarrow> exn + StockStatus list" where
  "low_stock_row item_dict =
     bind (bind (getitem item_dict ''current_quantity'') int_of_cell) (\<lambda>current_qty.
     bind (bind (getitem item_dict ''reorder_point'') int_of_cell) (\<lambda>reorder_pt.
     bind (int_of_cell (dict_get item_dict ''safety_stock'' (IntCell 0))) (\<lambda>safety.
       if current_qty \<le> reorder_pt then
         (let (st, pr) =
                (if current_qty \<le> 0 then (''OUT_OF_STOCK'', ''URGENT'')
                 else if current_qty < safety then (''CRITICAL'', ''URGENT'')
                 else if of_int current_qty < float_mul (float_of_int reorder_pt) (1 / 2)
                   then (''LOW'', ''HIGH'')
                 else (''LOW'', ''MEDIUM''))
          in bind (getitem item_dict ''item_code'') (\<lambda>v_item_code.
             bind (getitem item_dict ''item_name'') (\<lambda>v_item_name.
               Inr [\<lparr>StockStatus.item_code = v_item_code,
                     StockStatus.item_name = v_item_name,
                     StockStatus.current_quantity = current_qty,
                     StockStatus.reorder_point = reorder_pt,
                     needs_reorder = True,
                     shortage_amount = reorder_pt - current_qty,
                     status = st,
                     priority = Some pr\<rparr>])))
       else Inr [])))"

fun low_stock_loop :: "row_dict list \<Rightarrow> exn + StockStatus list" where
  "low_stock_loop [] = Inr []"
| "low_stock_loop (item_dict # rest) =
     bind (low_stock_row item_dict) (\<lambda>found.
     bind (low_stock_loop rest) (\<lambda>more. Inr (found @ more)))"

definition check_all_low_stock_items :: "DataFrame option \<Rightarrow> exn + StockStatus list" where
  "check_all_low_stock_items file =
     (let df = load_csv file in
      if df_empty df then Inr []
      else low_stock_loop (map (to_dict df) (rows df)))"

section \<open>Agent 3: the replenishment advisor\<close>

record order_calc =
  predicted_demand :: int
  current_stock :: int
  base_need :: int
  safety_stock :: int
  lead_time_demand :: int
  total_quantity :: int
  final_quantity :: int
  capped :: bool
  max_capacity :: int
  available_space :: int




section \<open>Agent 1C: the demand forecaster\<close>

text \<open>
  \<open>DemandForecaster._calculate_confidence\<close>: the MAPE of the best model, a float, is
  compared with the integer breakpoints exactly.
\<close>

definition calculate_confidence :: "rat \<Rightarrow> rat" where
  "calculate_confidence mape =
     (if mape < 10 then 95 / 100
      else if mape < 15 then 85 / 100
      else if mape < 20 then 75 / 100
      else if mape < 30 then 65 / 100
      else 50 / 100)"

text \<open>
  \<open>DemandForecaster.execute(self, df, schema, forecast_days)\<close>: its first statement
  formats \<open>item_code\<close> into the log message.  That name is no parameter, no local
  variable and no global of the module, so evaluating it raises \<open>NameError\<close> before
  anything else is done, whatever the arguments are.
\<close>

definition DemandForecaster_execute :: "DataFrame \<Rightarrow> (string \<times> string) list \<Rightarrow> int \<Rightarrow> exn + unit" where
  "DemandForecaster_execute df schema forecast_days = Inl (NameError ''item_code'')"

definition example_inventory :: DataFrame where
  "example_inventory =
     \<lparr>columns = [''item_code'', ''item_name'', ''current_quantity'', ''reorder_point'',
                 ''max_capacity'', ''unit'', ''warehouse_location'', ''last_updated'',
                 ''safety_stock'', ''lead_time_days''],
      rows = [(0, [StrCell ''ITM001'', StrCell ''M8 Screws'', IntCell 40, IntCell 50,
                   IntCell 500, StrCell ''pieces'', StrCell ''Rack 12'',
                   StrCell ''2024-12-06'', IntCell 20, IntCell 7])]\<rparr>"

definition stock_rules :: "int \<Rightarrow> int \<Rightarrow> int \<Rightarrow> string \<times> string option" where
  "stock_rules current_qty safety reorder_pt =
     (if current_qty \<le> 0 then (''OUT_OF_STOCK'', Some ''URGENT'')
      else if current_qty < safety then (''CRITICAL'', Some ''URGENT'')
      else if of_int current_qty < float_mul (float_of_int reorder_pt) (1 / 2)
        then (''LOW'', Some ''HIGH'')
      else if current_qty \<le> reorder_pt then (''LOW'', Some ''MEDIUM'')
      else (''ADEQUATE'', None))"


definition negative_reorder_inventory :: DataFrame where
  "negative_reorder_inventory =
     \<lparr>columns = [''item_code'', ''item_name'', ''current_quantity'', ''reorder_point'',
                 ''max_capacity'', ''unit'', ''warehouse_location'', ''last_updated''],
      rows = [(0, [StrCell ''ITM001'', StrCell ''M8 Screws'', IntCell 0, IntCell (- 1),
                   IntCell 500, StrCell ''pieces'', StrCell ''Rack 12'',
                   StrCell ''2024-12-06''])]\<rparr>"

definition missing_quantity_inventory :: DataFrame where
  "missing_quantity_inventory =
     \<lparr>columns = [''item_code'', ''item_name'', ''current_quantity'', ''reorder_point'',
                 ''max_capacity'', ''unit'', ''warehouse_location'', ''last_updated''],
      rows = [(0, [StrCell ''ITM001'', StrCell ''M8 Screws'', NaNCell, FloatCell 1000,
                   FloatCell 5000, StrCell ''pieces'', StrCell ''Rack 12'',
                   StrCell ''2024-12-06''])]\<rparr>"




definition item_with :: "int \<Rightarrow> int \<Rightarrow> int \<Rightarrow> int \<Rightarrow> int \<Rightarrow> InventoryItem" where
  "item_with qty reorder_pt capacity safety lead_time =
     \<lparr>InventoryItem.item_code = StrCell ''ITM001'', InventoryItem.item_name = StrCell ''M8 Screws'',
      InventoryItem.current_quantity = qty, InventoryItem.reorder_point = reorder_pt,
      InventoryItem.max_capacity = capacity, unit = StrCell ''pieces'',
      warehouse_location = StrCell ''Rack 12'', last_updated = StrCell ''2024-12-06'',
      InventoryItem.safety_stock = safety, lead_time_days = lead_time\<rparr>"

definition out_of_stock_inventory :: DataFrame where
  "out_of_stock_inventory =
     \<lparr>columns = [''item_code'', ''item_name'', ''current_quantity'', ''reorder_point'',
                 ''max_capacity'', ''unit'', ''warehouse_location'', ''last_updated'',
                 ''safety_stock''],
      rows = [(0, [StrCell ''ITM002'', StrCell ''Hex Nuts'', IntCell 900, IntCell 300,
                   IntCell 5000, StrCell ''pieces'', StrCell ''Rack 3'',
                   StrCell ''2024-12-06'', IntCell 100]),
              (1, [StrCell ''ITM001'', StrCell ''M8 Screws'', IntCell 0, IntCell 50,
                   IntCell 500, StrCell ''pieces'', StrCell ''Rack 12'',
                   StrCell ''2024-12-06'', IntCell 20])]\<rparr>"

definition low_stock_example :: StockStatus where
  "low_stock_example =
     \<lparr>StockStatus.item_code = StrCell ''ITM001'', StockStatus.item_name = StrCell ''M8 Screws'',
      StockStatus.current_quantity = 40, StockStatus.reorder_point = 50,
      needs_reorder = True, shortage_amount = 10, status = ''LOW'', priority = Some ''MEDIUM''\<rparr>"

lemma pow2_pos: "0 < pow2 e"
  by (simp add: pow2_def)

lemma pow2_add: "pow2 (a + b) = pow2 a * pow2 b"
  unfolding pow2_def by (rule power_int_add) simp

lemma pow2_diff: "pow2 (a - b) = pow2 a / pow2 b"
  unfolding pow2_def by (rule power_int_diff) simp

lemma pow2_nat: "pow2 (int n) = 2 ^ n"
  by (simp add: pow2_def)

lemma pow2_mono: "a \<le> b \<Longrightarrow> pow2 a \<le> pow2 b"
  unfolding pow2_def by (rule power_int_increasing) simp_all

lemma pow2_strict_mono: "a < b \<Longrightarrow> pow2 a < pow2 b"
  unfolding pow2_def by (rule power_int_strict_increasing) simp_all

lemma bit_length_pos: "0 < n \<Longrightarrow> 0 < bit_length n"
  by (subst bit_length.simps) simp

lemma bit_length_bounds:
  "0 < n \<Longrightarrow> 2 ^ (bit_length n - 1) \<le> n \<and> n < 2 ^ bit_length n"
proof (induction n rule: bit_length.induct)
  case (1 n)
  show ?case
  proof (cases "n = 1")
    case True
    then show ?thesis by (simp add: bit_length.simps [of 1] bit_length.simps [of 0])
  next
    case False
    with "1.prems" have h: "0 < n div 2" "\<not> n \<le> 0" by auto
    from "1.IH" [OF h(2) h(1)] have ih: "2 ^ (bit_length (n div 2) - 1) \<le> n div 2" "n div 2 < 2 ^ bit_length (n div 2)"
      by auto
    have bl: "bit_length n = Suc (bit_length (n div 2))"
      using h by (subst bit_length.simps) simp
    obtain k where k: "bit_length (n div 2) = Suc k"
      using bit_length_pos [OF h(1)] by (cases "bit_length (n div 2)") auto
    from ih show ?thesis unfolding bl k by auto
  qed
qed

lemma bit_length_bounds_rat:
  assumes "0 < n"
  shows "pow2 (int (bit_length n) - 1) \<le> of_int n" and "of_int n < pow2 (int (bit_length n))"
proof -
  from bit_length_bounds [OF assms]
  have b: "2 ^ (bit_length n - 1) \<le> n" "n < 2 ^ bit_length n" by auto
  obtain k where k: "bit_length n = Suc k"
    using bit_length_pos [OF assms] by (cases "bit_length n") auto
  have "pow2 (int (bit_length n) - 1) = pow2 (int k)" by (simp add: k)
  also have "\<dots> = of_int (2 ^ k)" by (simp add: pow2_nat)
  also have "\<dots> \<le> of_int n" using b(1) unfolding k by (simp only: of_int_le_iff diff_Suc_1)
  finally show "pow2 (int (bit_length n) - 1) \<le> of_int n" .
  have "(of_int n :: rat) < of_int (2 ^ bit_length n)" using b(2) by (simp only: of_int_less_iff)
  then show "of_int n < pow2 (int (bit_length n))" by (simp add: pow2_nat)
qed

lemma ilog2_bounds:
  assumes "0 < x"
  shows "pow2 (ilog2 x) \<le> x" and "x < pow2 (ilog2 x + 1)"
proof -
  obtain p q where pq: "quotient_of x = (p, q)" by (cases "quotient_of x")
  then have q: "0 < q" by (rule quotient_of_denom_pos)
  have x: "x = of_int p / of_int q" using pq by (rule quotient_of_div)
  with assms q have p: "0 < p" by (simp add: zero_less_divide_iff)
  define e where "e = int (bit_length p) - int (bit_length q)"
  have il: "ilog2 x = (if pow2 e \<le> x then e else e - 1)"
    by (simp add: ilog2_def pq e_def Let_def)
  note rp = bit_length_bounds_rat [OF p] and rq = bit_length_bounds_rat [OF q]
  have rq0: "(0::rat) < of_int q" using q by simp
  have e1: "pow2 (e - 1) = pow2 (int (bit_length p) - 1) / pow2 (int (bit_length q))"
    by (simp add: e_def pow2_diff [symmetric] algebra_simps)
  have e2: "pow2 (e + 1) = pow2 (int (bit_length p)) / pow2 (int (bit_length q) - 1)"
    by (simp add: e_def pow2_diff [symmetric] algebra_simps)
  have lo: "pow2 (e - 1) \<le> x"
    unfolding e1 x using rp(1) rq(2) rq0 pow2_pos p by (intro frac_le) (auto intro: less_imp_le)
  have hi: "x < pow2 (e + 1)"
    unfolding e2 x using rp(2) rq(1) rq0 pow2_pos p by (intro frac_less) (auto intro: less_imp_le)
  show "pow2 (ilog2 x) \<le> x" using lo by (simp add: il)
  show "x < pow2 (ilog2 x + 1)" using hi by (auto simp add: il)
qed


lemma round_half_even_of_int: "round_half_even (of_int n) = n"
  by (simp add: round_half_even_def)




lemma ilog2_less: 
  assumes "0 < x" "x < pow2 b"
  shows "ilog2 x < b"
proof (rule ccontr)
  assume "\<not> ilog2 x < b"
  then have "pow2 b \<le> pow2 (ilog2 x)" by (intro pow2_mono) simp
  with ilog2_bounds(1) [OF assms(1)] assms(2) show False by simp
qed

lemma ilog2_ge:
  assumes "0 < x" "pow2 b \<le> x"
  shows "b \<le> ilog2 x"
proof (rule ccontr)
  assume "\<not> b \<le> ilog2 x"
  then have "pow2 (ilog2 x + 1) \<le> pow2 b" by (intro pow2_mono) simp
  with ilog2_bounds(2) [OF assms(1)] assms(2) show False by simp
qed

lemma pow2_split: "a \<le> b \<Longrightarrow> pow2 b = of_int (2 ^ nat (b - a)) * pow2 a"
proof -
  assume "a \<le> b"
  then have "b = int (nat (b - a)) + a" by simp
  then have "pow2 b = pow2 (int (nat (b - a))) * pow2 a" by (metis pow2_add)
  then show ?thesis by (simp only: pow2_nat of_int_power of_int_numeral)
qed

lemma fl64_grid:
  assumes "x \<noteq> 0"
  shows "fl64 x = of_int (round_half_even (x / pow2 (ilog2 \<bar>x\<bar> - 52))) * pow2 (ilog2 \<bar>x\<bar> - 52)"
  using assms by (simp add: fl64_def Let_def)

lemma fl64_representable:
  assumes "\<bar>m\<bar> < 2 ^ 53"
  shows "fl64 (of_int m * pow2 j) = of_int m * pow2 j"
proof (cases "m = 0")
  case True
  then show ?thesis by (simp add: fl64_def)
next
  case False
  define x where "x = of_int m * pow2 j"
  have x0: "x \<noteq> 0" using False pow2_pos [of j] by (simp add: x_def)
  then have ax: "0 < \<bar>x\<bar>" by simp
  have "\<bar>x\<bar> = of_int \<bar>m\<bar> * pow2 j" using pow2_pos [of j] by (simp add: x_def abs_mult)
  also have "\<dots> < of_int (2 ^ 53) * pow2 j"
    using assms pow2_pos [of j] by (intro mult_strict_right_mono) (simp_all only: of_int_less_iff)
  also have "\<dots> = pow2 (53 + j)"
  proof -
    have "pow2 53 = of_int (2 ^ 53)" by (simp add: pow2_def)
    then show ?thesis by (simp only: pow2_add)
  qed
  finally have "ilog2 \<bar>x\<bar> < 53 + j" using ax by (intro ilog2_less)
  then have le: "ilog2 \<bar>x\<bar> - 52 \<le> j" by simp
  define u where "u = pow2 (ilog2 \<bar>x\<bar> - 52)"
  have u: "0 < u" by (simp add: u_def pow2_pos)
  define k where "k = nat (j - (ilog2 \<bar>x\<bar> - 52))"
  have pj: "pow2 j = of_int (2 ^ k) * u" unfolding u_def k_def using le by (rule pow2_split)
  have "x / u = of_int (m * 2 ^ k)" using u by (simp add: x_def pj)
  then have "round_half_even (x / u) = m * 2 ^ k" by (simp only: round_half_even_of_int)
  then have "fl64 x = of_int (m * 2 ^ k) * u" using fl64_grid [OF x0] by (simp add: u_def)
  also have "\<dots> = x" by (simp add: x_def pj)
  finally show ?thesis by (simp add: x_def)
qed

lemma float_of_int_exact: "\<bar>n\<bar> < 2 ^ 53 \<Longrightarrow> float_of_int n = of_int n"
  using fl64_representable [of n 0] by (simp add: float_of_int_def pow2_def)

lemma float_half_exact: "\<bar>n\<bar> < 2 ^ 53 \<Longrightarrow> float_mul (float_of_int n) (1 / 2) = of_int n / 2"
  using fl64_representable [of n "- 1"] by (simp add: float_of_int_exact float_mul_def pow2_def)



lemma bind_Inr [simp]: "bind (Inr v) f = f v"
  by (simp add: bind_def)

lemma bind_Inl [simp]: "bind (Inl e) f = Inl e"
  by (simp add: bind_def)

lemma bind_eq_Inr: "bind m f = Inr r \<longleftrightarrow> (\<exists>v. m = Inr v \<and> f v = Inr r)"
  by (cases m) simp_all

lemma StockMonitor_execute_found:
  assumes "StockMonitor_execute file code = Inr (StockFound s i)"
  shows "s = stock_status_of i"
  using assms unfolding StockMonitor_execute_def Let_def
  by (auto split: if_splits list.splits simp: bind_eq_Inr)

lemma stock_status_of_fields:
  "StockStatus.current_quantity (stock_status_of i) = InventoryItem.current_quantity i"
  "StockStatus.reorder_point (stock_status_of i) = InventoryItem.reorder_point i"
  "needs_reorder (stock_status_of i) = (InventoryItem.current_quantity i \<le> InventoryItem.reorder_point i)"
  "shortage_amount (stock_status_of i) = max 0 (InventoryItem.reorder_point i - InventoryItem.current_quantity i)"
  "StockStatus.item_code (stock_status_of i) = InventoryItem.item_code i"
  "StockStatus.item_name (stock_status_of i) = InventoryItem.item_name i"
  by (simp_all add: stock_status_of_def Let_def split: prod.splits)

lemma stock_status_of_rules:
  "(status (stock_status_of i), priority (stock_status_of i)) =
     stock_rules (InventoryItem.current_quantity i) (InventoryItem.safety_stock i) (InventoryItem.reorder_point i)"
  by (simp add: stock_status_of_def stock_rules_def Let_def split: prod.splits)

lemma example_inventory_found:
  "StockMonitor_execute (Some example_inventory) ''ITM001'' =
     Inr (StockFound
       \<lparr>StockStatus.item_code = StrCell ''ITM001'', StockStatus.item_name = StrCell ''M8 Screws'',
        StockStatus.current_quantity = 40, StockStatus.reorder_point = 50,
        needs_reorder = True, shortage_amount = 10, status = ''LOW'', priority = Some ''MEDIUM''\<rparr>
       \<lparr>InventoryItem.item_code = StrCell ''ITM001'', InventoryItem.item_name = StrCell ''M8 Screws'',
        InventoryItem.current_quantity = 40, InventoryItem.reorder_point = 50, InventoryItem.max_capacity = 500,
        unit = StrCell ''pieces'', warehouse_location = StrCell ''Rack 12'',
        last_updated = StrCell ''2024-12-06'', InventoryItem.safety_stock = 20, lead_time_days = 7\<rparr>)"
  by (simp add: StockMonitor_execute_def load_csv_def example_inventory_def df_empty_def
      rows_with_item_def to_dict_def inventory_from_dict_def getitem_def dict_get_def stock_status_of_def
      float_half_exact Let_def)





lemma bind2_singleton:
  assumes "bind a (\<lambda>x. bind b (\<lambda>y. Inr [F x y])) = Inr found"
  shows "\<exists>x y. found = [F x y]"
  using assms by (auto simp: bind_eq_Inr)

lemma low_stock_row_shortage:
  assumes "low_stock_row d = Inr found" "s \<in> set found"
  shows "shortage_amount s = max 0 (StockStatus.reorder_point s - StockStatus.current_quantity s)"
    and "0 \<le> shortage_amount s" and "needs_reorder s"
    and "StockStatus.current_quantity s \<le> StockStatus.reorder_point s"
proof -
  from assms(1) obtain cq rp sf where
    b: "(if cq \<le> rp then
         (let (st, pr) =
                (if cq \<le> 0 then (''OUT_OF_STOCK'', ''URGENT'')
                 else if cq < sf then (''CRITICAL'', ''URGENT'')
                 else if of_int cq < float_mul (float_of_int rp) (1 / 2)
                   then (''LOW'', ''HIGH'')
                 else (''LOW'', ''MEDIUM''))
          in bind (getitem d ''item_code'') (\<lambda>v_item_code.
             bind (getitem d ''item_name'') (\<lambda>v_item_name.
               Inr [\<lparr>StockStatus.item_code = v_item_code,
                     StockStatus.item_name = v_item_name,
                     StockStatus.current_quantity = cq,
                     StockStatus.reorder_point = rp,
                     needs_reorder = True,
                     shortage_amount = rp - cq,
                     status = st,
                     priority = Some pr\<rparr>])))
       else Inr []) = Inr found"
    unfolding low_stock_row_def bind_eq_Inr by blast
  have le: "cq \<le> rp"
  proof (rule ccontr)
    assume "\<not> cq \<le> rp"
    with b have "found = []" by simp
    with assms(2) show False by simp
  qed
  from b le obtain x y st pr where
    "found = [\<lparr>StockStatus.item_code = x, StockStatus.item_name = y,
               StockStatus.current_quantity = cq, StockStatus.reorder_point = rp,
               needs_reorder = True, shortage_amount = rp - cq,
               status = st, priority = Some pr\<rparr>]"
    by (simp add: split_beta) (drule bind2_singleton, blast)
  with assms(2) have s: "s = \<lparr>StockStatus.item_code = x, StockStatus.item_name = y,
               StockStatus.current_quantity = cq, StockStatus.reorder_point = rp,
               needs_reorder = True, shortage_amount = rp - cq,
               status = st, priority = Some pr\<rparr>" by simp
  show "shortage_amount s = max 0 (StockStatus.reorder_point s - StockStatus.current_quantity s)"
    and "0 \<le> shortage_amount s" and "needs_reorder s"
    and "StockStatus.current_quantity s \<le> StockStatus.reorder_point s"
    using le by (simp_all add: s)
qed

lemma low_stock_loop_set:
  assumes "low_stock_loop ds = Inr found" "s \<in> set found"
  shows "\<exists>d f. d \<in> set ds \<and> low_stock_row d = Inr f \<and> s \<in> set f"
  using assms
proof (induction ds arbitrary: found)
  case Nil
  then show ?case by simp
next
  case (Cons d ds)
  from Cons.prems(1) obtain f more where f: "low_stock_row d = Inr f"
    and m: "low_stock_loop ds = Inr more" and e: "found = f @ more"
    by (auto simp: bind_eq_Inr)
  from Cons.prems(2) e consider "s \<in> set f" | "s \<in> set more" by auto
  then show ?case
  proof cases
    case 1
    with f show ?thesis by auto
  next
    case 2
    from Cons.IH [OF m 2] show ?thesis by auto
  qed
qed

lemma check_all_low_stock_items_shortage:
  assumes "check_all_low_stock_items file = Inr found" "s \<in> set found"
  shows "shortage_amount s = max 0 (StockStatus.reorder_point s - StockStatus.current_quantity s)"
    and "0 \<le> shortage_amount s"
proof -
  from assms have "\<exists>ds. low_stock_loop ds = Inr found"
    unfolding check_all_low_stock_items_def Let_def by (auto split: if_splits)
  then obtain ds where "low_stock_loop ds = Inr found" ..
  from low_stock_loop_set [OF this assms(2)] obtain d f where
    "low_stock_row d = Inr f" "s \<in> set f" by blast
  from low_stock_row_shortage [OF this]
  show "shortage_amount s = max 0 (StockStatus.reorder_point s - StockStatus.current_quantity s)"
    and "0 \<le> shortage_amount s" by simp_all
qed







section \<open>The replenishment calculation\<close>






section \<open>The stock monitor\<close>

text \<open>
  Claim C5, as stated, fails on the code: with a current quantity of 0 the status is
  \<open>OUT_OF_STOCK\<close> and the priority \<open>URGENT\<close>, but \<open>needs_reorder\<close> is
  \<open>current_quantity \<le> reorder_point\<close>, which is false for a negative reorder point.
\<close>

theorem zero_stock_needs_reorder_counterexample:
  "StockMonitor_execute (Some negative_reorder_inventory) ''ITM001'' =
     Inr (StockFound
       \<lparr>StockStatus.item_code = StrCell ''ITM001'', StockStatus.item_name = StrCell ''M8 Screws'',
        StockStatus.current_quantity = 0, StockStatus.reorder_point = - 1,
        needs_reorder = False, shortage_amount = 0, status = ''OUT_OF_STOCK'',
        priority = Some ''URGENT''\<rparr>
       (item_with 0 (- 1) 500 0 7))"
  by (simp add: StockMonitor_execute_def load_csv_def negative_reorder_inventory_def df_empty_def
      rows_with_item_def to_dict_def inventory_from_dict_def getitem_def dict_get_def
      stock_status_of_def item_with_def Let_def)

text \<open>
  Claim C5, amended.  For every inventory item found by the stock check, status and
  priority are those of the first matching rule in the order: \<open>current_quantity \<le> 0\<close>
  gives \<open>OUT_OF_STOCK\<close>/\<open>URGENT\<close>; \<open>current_quantity < safety_stock\<close> gives
  \<open>CRITICAL\<close>/\<open>URGENT\<close>; \<open>current_quantity < reorder_point * 0.5\<close> gives
  \<open>LOW\<close>/\<open>HIGH\<close>; \<open>current_quantity \<le> reorder_point\<close> gives \<open>LOW\<close>/\<open>MEDIUM\<close>;
  otherwise \<open>ADEQUATE\<close> with no priority; and \<open>needs_reorder\<close> is
  \<open>current_quantity \<le> reorder_point\<close>, inclusive at the threshold.  A current quantity
  of 0 yields \<open>OUT_OF_STOCK\<close> and \<open>URGENT\<close> always, and \<open>needs_reorder\<close> whenever the
  reorder point is not negative.  For a reorder point below \<open>2^53\<close> in absolute value
  the float product \<open>reorder_point * 0.5\<close> is exact, so the third rule compares
  \<open>2 * current_quantity < reorder_point\<close>.
\<close>

theorem stock_status_rules:
  assumes "StockMonitor_execute file code = Inr (StockFound s i)"
  shows "StockStatus.current_quantity s = InventoryItem.current_quantity i \<and>
         StockStatus.reorder_point s = InventoryItem.reorder_point i \<and>
         (status s, priority s) =
           stock_rules (InventoryItem.current_quantity i) (InventoryItem.safety_stock i)
             (InventoryItem.reorder_point i) \<and>
         needs_reorder s = (InventoryItem.current_quantity i \<le> InventoryItem.reorder_point i) \<and>
         (InventoryItem.current_quantity i = 0 \<longrightarrow>
            status s = ''OUT_OF_STOCK'' \<and> priority s = Some ''URGENT'' \<and>
            (0 \<le> InventoryItem.reorder_point i \<longrightarrow> needs_reorder s)) \<and>
         (\<bar>InventoryItem.reorder_point i\<bar> < 2 ^ 53 \<longrightarrow>
            (of_int (InventoryItem.current_quantity i)
               < float_mul (float_of_int (InventoryItem.reorder_point i)) (1 / 2))
            = (2 * InventoryItem.current_quantity i < InventoryItem.reorder_point i))"
proof -
  from assms have s: "s = stock_status_of i" by (rule StockMonitor_execute_found)
  have r: "(status s, priority s) =
           stock_rules (InventoryItem.current_quantity i) (InventoryItem.safety_stock i)
             (InventoryItem.reorder_point i)"
    unfolding s by (rule stock_status_of_rules)
  have z: "InventoryItem.current_quantity i = 0 \<longrightarrow>
            status s = ''OUT_OF_STOCK'' \<and> priority s = Some ''URGENT''"
    using r by (auto simp: stock_rules_def)
  have h: "\<bar>InventoryItem.reorder_point i\<bar> < 2 ^ 53 \<longrightarrow>
            (of_int (InventoryItem.current_quantity i)
               < float_mul (float_of_int (InventoryItem.reorder_point i)) (1 / 2))
            = (2 * InventoryItem.current_quantity i < InventoryItem.reorder_point i)"
  proof
    assume b: "\<bar>InventoryItem.reorder_point i\<bar> < 2 ^ 53"
    have "(of_int (InventoryItem.current_quantity i) < (of_int (InventoryItem.reorder_point i) :: rat) / 2)
          = ((of_int (2 * InventoryItem.current_quantity i) :: rat) < of_int (InventoryItem.reorder_point i))"
      by (simp add: field_simps)
    also have "\<dots> = (2 * InventoryItem.current_quantity i < InventoryItem.reorder_point i)"
      by (simp only: of_int_less_iff)
    finally show "(of_int (InventoryItem.current_quantity i)
               < float_mul (float_of_int (InventoryItem.reorder_point i)) (1 / 2))
            = (2 * InventoryItem.current_quantity i < InventoryItem.reorder_point i)"
      by (simp only: float_half_exact [OF b])
  qed
  show ?thesis
    using r z h by (simp add: s stock_status_of_fields)
qed

theorem stock_status_rules_witness:
  "StockMonitor_execute (Some out_of_stock_inventory) ''ITM001'' =
     Inr (StockFound (stock_status_of (item_with 0 50 500 20 7)) (item_with 0 50 500 20 7)) \<and>
   InventoryItem.current_quantity (item_with 0 50 500 20 7) = 0 \<and>
   0 \<le> InventoryItem.reorder_point (item_with 0 50 500 20 7) \<and>
   \<bar>InventoryItem.reorder_point (item_with 0 50 500 20 7)\<bar> < 2 ^ 53 \<and>
   status (stock_status_of (item_with 0 50 500 20 7)) = ''OUT_OF_STOCK'' \<and>
   priority (stock_status_of (item_with 0 50 500 20 7)) = Some ''URGENT'' \<and>
   needs_reorder (stock_status_of (item_with 0 50 500 20 7))"
proof -
  have found: "StockMonitor_execute (Some out_of_stock_inventory) ''ITM001'' =
     Inr (StockFound (stock_status_of (item_with 0 50 500 20 7)) (item_with 0 50 500 20 7))"
    by (simp add: StockMonitor_execute_def load_csv_def out_of_stock_inventory_def df_empty_def
        rows_with_item_def to_dict_def inventory_from_dict_def getitem_def dict_get_def
        item_with_def Let_def)
  have fields: "InventoryItem.current_quantity (item_with 0 50 500 20 7) = 0"
    "InventoryItem.reorder_point (item_with 0 50 500 20 7) = 50"
    by (simp_all add: item_with_def)
  from stock_status_rules [OF found] fields found show ?thesis by simp
qed

text \<open>
  Claim C6.  For every stock check that finds the item, the shortage amount is
  \<open>max(0, reorder_point - current_quantity)\<close> and therefore never negative, also for a
  negative current quantity or one above the reorder point; the same holds for every
  status returned by the check of all low stock items.
\<close>

theorem shortage_amount_is_clamped_difference:
  "(StockMonitor_execute file code = Inr (StockFound s i) \<longrightarrow>
      shortage_amount s = max 0 (InventoryItem.reorder_point i - InventoryItem.current_quantity i) \<and>
      shortage_amount s = max 0 (StockStatus.reorder_point s - StockStatus.current_quantity s) \<and>
      0 \<le> shortage_amount s) \<and>
   (check_all_low_stock_items file = Inr found \<and> t \<in> set found \<longrightarrow>
      shortage_amount t = max 0 (StockStatus.reorder_point t - StockStatus.current_quantity t) \<and>
      0 \<le> shortage_amount t)"
proof (intro conjI impI)
  assume a: "StockMonitor_execute file code = Inr (StockFound s i)"
  then have s: "s = stock_status_of i" by (rule StockMonitor_execute_found)
  show "shortage_amount s = max 0 (InventoryItem.reorder_point i - InventoryItem.current_quantity i)"
    and "shortage_amount s = max 0 (StockStatus.reorder_point s - StockStatus.current_quantity s)"
    and "0 \<le> shortage_amount s"
    by (simp_all add: s stock_status_of_fields)
next
  assume a: "check_all_low_stock_items file = Inr found \<and> t \<in> set found"
  then have f: "check_all_low_stock_items file = Inr found" and t: "t \<in> set found" by simp_all
  show "shortage_amount t = max 0 (StockStatus.reorder_point t - StockStatus.current_quantity t)"
    and "0 \<le> shortage_amount t"
    using check_all_low_stock_items_shortage [OF f t] by simp_all
qed

theorem shortage_amount_witness:
  "StockMonitor_execute (Some example_inventory) ''ITM001'' =
     Inr (StockFound (stock_status_of (item_with 40 50 500 20 7)) (item_with 40 50 500 20 7)) \<and>
   shortage_amount (stock_status_of (item_with 40 50 500 20 7)) = 10 \<and>
   check_all_low_stock_items (Some example_inventory) = Inr [low_stock_example] \<and>
   low_stock_example \<in> set [low_stock_example] \<and>
   shortage_amount low_stock_example = 10"
proof -
  have found: "StockMonitor_execute (Some example_inventory) ''ITM001'' =
     Inr (StockFound (stock_status_of (item_with 40 50 500 20 7)) (item_with 40 50 500 20 7))"
    by (simp add: StockMonitor_execute_def load_csv_def example_inventory_def df_empty_def
        rows_with_item_def to_dict_def inventory_from_dict_def getitem_def dict_get_def
        item_with_def Let_def)
  have low: "check_all_low_stock_items (Some example_inventory) = Inr [low_stock_example]"
    by (simp add: check_all_low_stock_items_def load_csv_def example_inventory_def df_empty_def
        to_dict_def low_stock_row_def getitem_def dict_get_def float_half_exact
        low_stock_example_def Let_def)
  have mem: "low_stock_example \<in> set [low_stock_example]" by simp
  from shortage_amount_is_clamped_difference
         [of "Some example_inventory" "''ITM001''" "stock_status_of (item_with 40 50 500 20 7)"
             "item_with 40 50 500 20 7" "[low_stock_example]" low_stock_example]
       found low mem
  show ?thesis
    by (simp add: item_with_def low_stock_example_def)
qed

section \<open>Failures at the component boundaries\<close>

text \<open>
  Claim C10 holds that every failure of a component surfaces as a structured result and
  that no exception leaves an entry point.  The code does not achieve this: for an
  inventory file whose row of the item has an empty \<open>current_quantity\<close> cell,
  \<open>StockMonitor.execute\<close> raises the \<open>ValueError\<close> of \<open>int(nan)\<close>, and
  \<open>DemandForecaster.execute\<close> raises \<open>NameError\<close> on every input.
\<close>

theorem exceptions_leave_entry_points:
  "StockMonitor_execute (Some missing_quantity_inventory) ''ITM001'' =
     Inl (ValueError ''cannot convert float NaN to integer'') \<and>
   DemandForecaster_execute df schema forecast_days = Inl (NameError ''item_code'')"
  by (simp add: StockMonitor_execute_def load_csv_def missing_quantity_inventory_def df_empty_def
      rows_with_item_def to_dict_def inventory_from_dict_def getitem_def dict_get_def Let_def
      DemandForecaster_execute_def)

end
